theory Spec2Isabelle
  imports Main "HOL-Library.Word" "HOL-Library.Sublist"
begin

section \<open>Errors\<close>

text \<open>
  Errors are values of the \<open>trace\<close> library: a constructor per error kind used by the
  sources (\<open>trace.BadParameter\<close>, \<open>trace.NotFound\<close>), \<open>SystemError\<close> for an error
  handed over by the operating system or by a collaborator, \<open>Wrapped\<close> for
  \<open>trace.Wrap(err, msg)\<close>, which keeps the wrapped error and adds a message, and
  \<open>Aggregate\<close> for \<open>trace.NewAggregate\<close>. A Go \<open>error\<close> that may be \<open>nil\<close> is an
  \<open>error option\<close>, \<open>None\<close> being \<open>nil\<close>.
\<close>

datatype error =
    BadParameter string
  | NotFound string
  | SystemError string
  | Wrapped error string
  | Aggregate "error list"

text \<open>\<open>trace.Wrap(err)\<close>: \<open>nil\<close> stays \<open>nil\<close>, anything else is wrapped.\<close>

definition Wrap :: "error option \<Rightarrow> string \<Rightarrow> error option" where
  "Wrap err msg = (case err of None \<Rightarrow> None | Some e \<Rightarrow> Some (Wrapped e msg))"


fun IsBadParameter :: "error \<Rightarrow> bool" where
  "IsBadParameter (BadParameter m) = True"
| "IsBadParameter (Wrapped e m) = IsBadParameter e"
| "IsBadParameter (NotFound m) = False"
| "IsBadParameter (SystemError m) = False"
| "IsBadParameter (Aggregate es) = False"

text \<open>\<open>trace.NewAggregate(errs...)\<close>: the \<open>nil\<close> errors are dropped; \<open>nil\<close> when none is left.\<close>

definition NewAggregate :: "error option list \<Rightarrow> error option" where
  "NewAggregate errs =
     (case List.map_filter id errs of [] \<Rightarrow> None | e # es \<Rightarrow> Some (Aggregate (e # es)))"

section \<open>The storage checker (package monitoring)\<close>

datatype Probe_Type = Probe_Unknown | Probe_Running | Probe_Failed | Probe_Terminated

record Probe =
  Checker :: string
  Detail :: string
  Status :: Probe_Type
  Error :: string

text \<open>\<open>&pb.Probe{Checker: name}\<close>: the other fields hold their zero values.\<close>

definition newProbe :: "string \<Rightarrow> Probe" where
  "newProbe name = \<lparr>Checker = name, Detail = [], Status = Probe_Unknown, Error = []\<rparr>"

text \<open>A \<open>health.Reporter\<close> collects the probes added to it, in order.\<close>

type_synonym Reporter = "Probe list"

definition Add :: "Reporter \<Rightarrow> Probe \<Rightarrow> Reporter" where
  "Add reporter probe = reporter @ [probe]"

record FileSystem =
  DirName :: string
  DevName :: string
  TypeName :: string
  SysTypeName :: string
  Options :: string
  Flags :: "32 word"

record storageChecker =
  Path :: string
  WillBeCreated :: bool
  MinBytesPerSecond :: "64 word"
  Filesystems :: "string list"
  MinFreeBytes :: "64 word"
  path :: string

text \<open>
  \<open>osInterface\<close> is the interface of the sources: the mounts of the system, the
  sequential-write throughput of a directory and its available capacity, each of which
  may fail.
\<close>

record osInterface =
  mounts :: "error + FileSystem list"
  diskSpeed :: "string \<Rightarrow> string \<Rightarrow> error + 64 word"
  diskCapacity :: "string \<Rightarrow> error + 64 word"

text \<open>
  What the checker takes from the standard library and from third parties, as parameters:
  \<open>os.Stat\<close> (with the error already converted by \<open>trace.ConvertSystemError\<close>),
  \<open>filepath.Dir\<close>, \<open>filepath.EvalSymlinks\<close>, \<open>sort.Sort\<close> on \<open>childPathFirst\<close>,
  \<open>humanize.Bytes\<close> and \<open>NewProbeFromErr\<close>.
\<close>

datatype stat_result = StatDir | StatFile | StatNotExist | StatError error

record host =
  Stat :: "string \<Rightarrow> stat_result"
  Dir :: "string \<Rightarrow> string"
  EvalSymlinks :: "string \<Rightarrow> error + string"
  sortChildPathFirst :: "FileSystem list \<Rightarrow> FileSystem list"
  humanizeBytes :: "64 word \<Rightarrow> string"
  NewProbeFromErr :: "string \<Rightarrow> string \<Rightarrow> error \<Rightarrow> Probe"

definition storageWriteCheckerID :: string where
  "storageWriteCheckerID = ''io-check''"

text \<open>\<open>fmt.Sprintf("%s(%s)", storageWriteCheckerID, c.Path)\<close>\<close>

definition Name :: "'a storageChecker_scheme \<Rightarrow> string" where
  "Name c = storageWriteCheckerID @ ''('' @ Path c @ '')''"

text \<open>\<open>utils.StringInSlice\<close>: the loop stops at the first match.\<close>

fun StringInSlice :: "string list \<Rightarrow> string \<Rightarrow> bool" where
  "StringInSlice [] needle = False"
| "StringInSlice (h # haystack) needle = (if h = needle then True else StringInSlice haystack needle)"

text \<open>\<open>%v\<close> of a \<open>[]string\<close>: the elements between brackets, separated by a space.\<close>

fun joinSpace :: "string list \<Rightarrow> string" where
  "joinSpace [] = []"
| "joinSpace [x] = x"
| "joinSpace (x # y # ys) = x @ '' '' @ joinSpace (y # ys)"

definition fmtStrings :: "string list \<Rightarrow> string" where
  "fmtStrings xs = ''['' @ joinSpace xs @ '']''"

text \<open>
  \<open>evalPath\<close>: the loop walks up from \<open>c.Path\<close> to the first path that exists. It ends
  only when \<open>os.Stat\<close> answers or \<open>filepath.Dir\<close> reaches a fixed point, so the model
  is a partial function: \<open>None\<close> is the loop that never returns.
\<close>

partial_function (option) evalPathFrom ::
  "host \<Rightarrow> storageChecker \<Rightarrow> string \<Rightarrow> (error + storageChecker) option" where
  "evalPathFrom h c p =
     (case Stat h p of
        StatError e \<Rightarrow> Some (Inl e)
      | StatNotExist \<Rightarrow>
          if \<not> WillBeCreated c then Some (Inl (BadParameter (Path c @ '' does not exist'')))
          else if Dir h p = p then Some (Inl (BadParameter (p @ '' is root and is not a directory'')))
          else evalPathFrom h c (Dir h p)
      | StatDir \<Rightarrow> Some (Inr (c\<lparr>path := p\<rparr>))
      | StatFile \<Rightarrow> Some (Inl (BadParameter (p @ '' is not a directory''))))"

definition evalPath :: "host \<Rightarrow> storageChecker \<Rightarrow> (error + storageChecker) option" where
  "evalPath h c = evalPathFrom h c (Path c)"

text \<open>
  \<open>fsFromPath\<close>: the first mount, in the order \<open>sort.Sort(childPathFirst(mounts))\<close>
  leaves them, whose directory is a prefix of the resolved path and whose type is not
  \<open>rootfs\<close>.
\<close>

fun firstMount :: "string \<Rightarrow> FileSystem list \<Rightarrow> FileSystem option" where
  "firstMount cleanpath [] = None"
| "firstMount cleanpath (mnt # ms) =
     (if prefix (DirName mnt) cleanpath \<and> SysTypeName mnt \<noteq> ''rootfs'' then Some mnt
      else firstMount cleanpath ms)"

definition fsFromPath :: "host \<Rightarrow> string \<Rightarrow> osInterface \<Rightarrow> error + FileSystem" where
  "fsFromPath h pth mountInfo =
     (case EvalSymlinks h pth of
        Inl err \<Rightarrow> Inl (Wrapped err [])
      | Inr cleanpath \<Rightarrow>
          (case mounts mountInfo of
             Inl err \<Rightarrow> Inl (Wrapped err [])
           | Inr ms \<Rightarrow>
               (case firstMount cleanpath (sortChildPathFirst h ms) of
                  Some mnt \<Rightarrow> Inr mnt
                | None \<Rightarrow> Inl (BadParameter (''failed to locate filesystem for '' @ pth)))))"

definition checkFsType ::
  "host \<Rightarrow> osInterface \<Rightarrow> storageChecker \<Rightarrow> Reporter \<Rightarrow> error option \<times> Reporter" where
  "checkFsType h os c reporter =
     (if length (Filesystems c) = 0 then (None, reporter)
      else case fsFromPath h (path c) os of
        Inl err \<Rightarrow> (Some (Wrapped err []), reporter)
      | Inr mnt \<Rightarrow>
          (let probe = newProbe (Name c);
               probe' =
                 (if StringInSlice (Filesystems c) (SysTypeName mnt)
                  then probe\<lparr>Status := Probe_Running\<rparr>
                  else probe\<lparr>Status := Probe_Failed,
                         Detail := ''path '' @ Path c @ '' requires filesystem ''
                           @ fmtStrings (Filesystems c) @ '', belongs to '' @ DirName mnt
                           @ '' mount point of type '' @ SysTypeName mnt\<rparr>)
           in (None, Add reporter probe')))"

definition checkCapacity ::
  "host \<Rightarrow> osInterface \<Rightarrow> storageChecker \<Rightarrow> Reporter \<Rightarrow> error option \<times> Reporter" where
  "checkCapacity h os c reporter =
     (case diskCapacity os (path c) of
        Inl err \<Rightarrow> (Some (Wrapped err []), reporter)
      | Inr avail \<Rightarrow>
          if avail < MinFreeBytes c
          then (None, Add reporter
                  \<lparr>Checker = Name c,
                   Detail = humanizeBytes h avail @ '' available space left on '' @ Path c
                     @ '', minimum of '' @ humanizeBytes h (MinFreeBytes c) @ '' required'',
                   Status = Probe_Failed, Error = []\<rparr>)
          else (None, reporter))"

definition checkWriteSpeed ::
  "host \<Rightarrow> osInterface \<Rightarrow> storageChecker \<Rightarrow> Reporter \<Rightarrow> error option \<times> Reporter" where
  "checkWriteSpeed h os c reporter =
     (if MinBytesPerSecond c = 0 then (None, reporter)
      else case diskSpeed os (path c) ''probe'' of
        Inl err \<Rightarrow> (Some (Wrapped err []), reporter)
      | Inr bps \<Rightarrow>
          if bps \<ge> MinBytesPerSecond c then (None, reporter)
          else (None, Add reporter
                  \<lparr>Checker = Name c,
                   Detail = ''min write speed '' @ humanizeBytes h (MinBytesPerSecond c)
                     @ ''/sec required, have '' @ humanizeBytes h bps,
                   Status = Probe_Failed, Error = []\<rparr>))"

text \<open>
  \<open>check\<close>: \<open>evalPath\<close>, then the three checks in the order Go evaluates the arguments
  of \<open>trace.NewAggregate\<close>. The result holds the checker (its \<open>path\<close> set), the error and
  the reporter.
\<close>

definition check ::
  "host \<Rightarrow> osInterface \<Rightarrow> storageChecker \<Rightarrow> Reporter
     \<Rightarrow> (storageChecker \<times> error option \<times> Reporter) option" where
  "check h os c reporter =
     (case evalPath h c of
        None \<Rightarrow> None
      | Some (Inl err) \<Rightarrow> Some (c, Some (Wrapped err []), reporter)
      | Some (Inr c') \<Rightarrow>
          (let (e1, r1) = checkFsType h os c' reporter;
               (e2, r2) = checkCapacity h os c' r1;
               (e3, r3) = checkWriteSpeed h os c' r2
           in Some (c', NewAggregate [e1, e2, e3], r3)))"

definition Check ::
  "host \<Rightarrow> osInterface \<Rightarrow> storageChecker \<Rightarrow> Reporter \<Rightarrow> (storageChecker \<times> Reporter) option" where
  "Check h os c reporter =
     (case check h os c reporter of
        None \<Rightarrow> None
      | Some (c', Some err, r) \<Rightarrow>
          Some (c', Add r (NewProbeFromErr h (Name c')
                  ''failed to validate storage requirements'' (Wrapped err [])))
      | Some (c', None, r) \<Rightarrow>
          Some (c', Add r ((newProbe (Name c'))\<lparr>Status := Probe_Running\<rparr>)))"

section \<open>Plans, phases and servers\<close>

record Server =
  Hostname :: string
  AdvertiseIP :: string
  Role :: string
  ClusterRole :: string

text \<open>\<open>storage.OSUser\<close>, the service user as the plan stores it.\<close>

record OSUser =
  OSName :: string
  OSUID :: string
  OSGID :: string

text \<open>\<open>systeminfo.User\<close>, the service user with numeric identifiers.\<close>

record User =
  UserName :: string
  UID :: int
  GID :: int

record Locator =
  Repository :: string
  LocName :: string
  Version :: string

text \<open>The pointer fields of \<open>PhaseData\<close> are options: \<open>None\<close> is \<open>nil\<close>.\<close>

record PhaseData =
  DataServer :: "Server option"
  Package :: "Locator option"
  ServiceUser :: "OSUser option"
  Resources :: string

record Phase =
  ID :: string
  Data :: "PhaseData option"

record OperationPlan =
  OperationID :: string
  ClusterName :: string
  Servers :: "Server list"

record ExecutorParams =
  Plan :: OperationPlan
  Phase :: Phase

section \<open>The world the phases act on\<close>

datatype Level = PanicLevel | FatalLevel | ErrorLevel | WarnLevel | InfoLevel | DebugLevel

datatype event = Progress string | Logged Level string

text \<open>
  What a phase can change outside its own variables: the time that has passed, what it
  wrote to the progress reporter and to its logger, how often the planet agent has
  been asked for its status, and the variable \<open>node\<close> of \<open>waitForNode\<close>, which the
  function handed to \<open>utils.Retry\<close> assigns (\<open>None\<close> is \<open>nil\<close>).
\<close>

record world =
  clock :: nat
  events :: "event list"
  agentCalls :: nat
  node :: "string option"

definition NextStep :: "string \<Rightarrow> 'a world_scheme \<Rightarrow> 'a world_scheme" where
  "NextStep msg w = w\<lparr>events := events w @ [Progress msg]\<rparr>"

definition logAt :: "Level \<Rightarrow> string \<Rightarrow> 'a world_scheme \<Rightarrow> 'a world_scheme" where
  "logAt lvl msg w = w\<lparr>events := events w @ [Logged lvl msg]\<rparr>"

definition sleep :: "nat \<Rightarrow> 'a world_scheme \<Rightarrow> 'a world_scheme" where
  "sleep period w = w\<lparr>clock := clock w + period\<rparr>"

text \<open>The constants of package \<open>defaults\<close> the phases use, as parameters.\<close>

record defaults =
  RetryInterval :: nat
  RetryAttempts :: nat
  RetryLessAttempts :: nat
  LabelRetryAttempts :: nat

section \<open>Retry\<close>

text \<open>
  Modelled from the spec: \<open>utils.Retry\<close> is not among the sources, only its call sites
  are. The spec's contract: the wrapped function is invoked up to the attempt budget; the
  first success short-circuits further attempts; exhausting the budget surfaces the last
  observed error. The wait is blocking, with a fixed interval: after a failed attempt the
  interval passes.
\<close>

fun retryLoop ::
  "nat \<Rightarrow> nat \<Rightarrow> error option \<Rightarrow> ('a world_scheme \<Rightarrow> error option \<times> 'a world_scheme)
     \<Rightarrow> 'a world_scheme \<Rightarrow> error option \<times> 'a world_scheme" where
  "retryLoop period 0 lastErr fn w = (lastErr, w)"
| "retryLoop period (Suc n) lastErr fn w =
     (case fn w of
        (None, w') \<Rightarrow> (None, w')
      | (Some err, w') \<Rightarrow> retryLoop period n (Some err) fn (sleep period w'))"

definition Retry ::
  "nat \<Rightarrow> nat \<Rightarrow> ('a world_scheme \<Rightarrow> error option \<times> 'a world_scheme)
     \<Rightarrow> 'a world_scheme \<Rightarrow> error option \<times> 'a world_scheme" where
  "Retry period maxAttempts fn w = retryLoop period maxAttempts None fn w"

text \<open>
  What a function does when it is invoked \<open>k\<close> times in a row, the interval passing
  after each invocation: the result of each invocation and the world it leaves.
\<close>

fun invocations ::
  "nat \<Rightarrow> nat \<Rightarrow> ('a world_scheme \<Rightarrow> error option \<times> 'a world_scheme)
     \<Rightarrow> 'a world_scheme \<Rightarrow> (error option \<times> 'a world_scheme) list" where
  "invocations period 0 fn w = []"
| "invocations period (Suc k) fn w =
     fn w # invocations period k fn (sleep period (snd (fn w)))"

section \<open>The wait phase\<close>

datatype SystemStatus_Type = SystemStatus_Unknown | SystemStatus_Running | SystemStatus_Degraded

record Agent =
  SystemStatus :: SystemStatus_Type
  Nodes :: "string list"

text \<open>
  \<open>status.FromPlanetAgent\<close> asks the planet agent. The answers of the agent are a
  script: \<open>agent k\<close> is the answer to the call number \<open>k\<close>.
\<close>

definition FromPlanetAgent ::
  "(nat \<Rightarrow> error + Agent) \<Rightarrow> 'a world_scheme \<Rightarrow> (error + Agent) \<times> 'a world_scheme" where
  "FromPlanetAgent agent w = (agent (agentCalls w), w\<lparr>agentCalls := Suc (agentCalls w)\<rparr>)"

text \<open>
  The function \<open>waitExecutor.Execute\<close> hands to \<open>utils.Retry\<close>. The messages leave out
  the status that the source prints after them.
\<close>

definition waitAttempt ::
  "(nat \<Rightarrow> error + Agent) \<Rightarrow> ExecutorParams \<Rightarrow> 'a world_scheme
     \<Rightarrow> error option \<times> 'a world_scheme" where
  "waitAttempt agent p w =
     (case FromPlanetAgent agent w of
        (Inl err, w') \<Rightarrow> (Some (Wrapped err []), w')
      | (Inr status, w') \<Rightarrow>
          if length (Nodes status) \<noteq> length (Servers (Plan p))
          then (Some (BadParameter ''not all planets have come up yet''), w')
          else if SystemStatus status \<noteq> SystemStatus_Running
          then (Some (BadParameter ''planet is not running yet''), w')
          else (None, w'))"

definition waitExecute ::
  "defaults \<Rightarrow> (nat \<Rightarrow> error + Agent) \<Rightarrow> ExecutorParams \<Rightarrow> 'a world_scheme
     \<Rightarrow> error option \<times> 'a world_scheme" where
  "waitExecute df agent p w =
     (let w1 = NextStep ''Waiting for the planet to start'' w;
          w2 = logAt InfoLevel ''Waiting for the planet to start.'' w1
      in case Retry (RetryInterval df) (RetryAttempts df) (waitAttempt agent p) w2 of
           (Some err, w3) \<Rightarrow> (Some (Wrapped err []), w3)
         | (None, w3) \<Rightarrow> (None, logAt InfoLevel ''Planet is running.'' w3))"

section \<open>Phase executors\<close>

text \<open>
  A method of an executor returns an error or \<open>nil\<close>, or panics (a \<open>nil\<close> pointer
  is dereferenced), and changes the world.
\<close>

datatype 'r outcome = Returned 'r | Panic




subsection \<open>The app phase\<close>

type_synonym HookType = string



record HookRunRequest =
  Application :: Locator
  Hook :: HookType
  ReqServiceUser :: OSUser


record 'k Logger =
  FieldInstallPhase :: string
  Key :: 'k
  LoggerServer :: "Server option"

record 'k appExecutor =
  FieldLogger :: "'k Logger"
  appServiceUser :: User
  appParams :: ExecutorParams

text \<open>
  \<open>NewApp\<close>; \<open>userFromOSUser\<close> and \<open>opKey\<close> are functions of the package that are not
  among the sources, taken as parameters.
\<close>

definition NewApp ::
  "(OSUser \<Rightarrow> error + User) \<Rightarrow> (OperationPlan \<Rightarrow> 'k) \<Rightarrow> ExecutorParams \<Rightarrow> error + 'k appExecutor" where
  "NewApp userFromOSUser opKey p =
     (case Data (Phase p) of
        None \<Rightarrow> Inl (BadParameter ''service user is required'')
      | Some d \<Rightarrow>
          (case ServiceUser d of
             None \<Rightarrow> Inl (BadParameter ''service user is required'')
           | Some osUser \<Rightarrow>
               (case userFromOSUser osUser of
                  Inl err \<Rightarrow> Inl (Wrapped err [])
                | Inr serviceUser \<Rightarrow>
                    Inr \<lparr>FieldLogger =
                           \<lparr>FieldInstallPhase = ID (Phase p), Key = opKey (Plan p),
                            LoggerServer = DataServer d\<rparr>,
                         appServiceUser = serviceUser,
                         appParams = p\<rparr>)))"

text \<open>\<open>strconv.Itoa\<close>\<close>

function natDigits :: "nat \<Rightarrow> string" where
  "natDigits n =
     (if n < 10 then [char_of (48 + n)] else natDigits (n div 10) @ [char_of (48 + n mod 10)])"
  by pat_completeness auto
termination
  by (relation "measure id") auto





text \<open>
  \<open>Rollback\<close> has a pointer receiver: the result holds the executor as the method
  leaves it, beside the world.
\<close>

definition appRollback :: "'k appExecutor \<Rightarrow> 'w \<Rightarrow> error option outcome \<times> 'k appExecutor \<times> 'w" where
  "appRollback e w = (Returned None, e, w)"


subsection \<open>The wait, nodes, rbac and resources phases\<close>



record rbacExecutor =
  rbacParams :: ExecutorParams

record resourcesExecutor =
  resourcesParams :: ExecutorParams




definition rbacRollback :: "rbacExecutor \<Rightarrow> 'w \<Rightarrow> error option outcome \<times> rbacExecutor \<times> 'w" where
  "rbacRollback e w = (Returned None, e, w)"

definition resourcesRollback ::
  "resourcesExecutor \<Rightarrow> 'w \<Rightarrow> error option outcome \<times> resourcesExecutor \<times> 'w" where
  "resourcesRollback e w = (Returned None, e, w)"




section \<open>The engine's run of one phase\<close>




section \<open>Logging of the local installer (package install)\<close>

record Entry =
  EntryLevel :: Level
  Message :: string

text \<open>Where the logger writes: \<open>os.Stderr\<close>, the console, or \<open>ioutil.Discard\<close>.\<close>

datatype writer = Stderr | Discard

record Hook =
  hookPath :: string

text \<open>The standard logger of \<open>logrus\<close>: its hooks, its level and its output.\<close>

record StandardLogger =
  Hooks :: "Hook list"
  LoggerLevel :: Level
  Out :: writer

text \<open>
  The state logging acts on: the standard logger, the contents of the files, and what
  was written to the console. \<open>canOpen\<close> tells which files can be created and opened
  for writing; \<open>format\<close> is \<open>entry.String()\<close>.
\<close>

record logState =
  logger :: StandardLogger
  files :: "string \<Rightarrow> string option"
  console :: string

record logEnv =
  canOpen :: "string \<Rightarrow> bool"
  format :: "Entry \<Rightarrow> error + string"

definition NewLogHook :: "logEnv \<Rightarrow> string \<Rightarrow> logState \<Rightarrow> (error + Hook) \<times> logState" where
  "NewLogHook env pth st =
     (if \<not> canOpen env pth then (Inl (Wrapped (SystemError (''open '' @ pth)) []), st)
      else (Inr \<lparr>hookPath = pth\<rparr>, st\<lparr>files := (files st)(pth \<mapsto> [])\<rparr>))"

definition InitLogging :: "logEnv \<Rightarrow> string \<Rightarrow> logState \<Rightarrow> error option \<times> logState" where
  "InitLogging env logFile st =
     (case NewLogHook env logFile st of
        (Inl err, st') \<Rightarrow> (Some (Wrapped err (''failed to create log file '' @ logFile)), st')
      | (Inr hook, st') \<Rightarrow>
          (None, st'\<lparr>logger := (logger st')\<lparr>Hooks := Hooks (logger st') @ [hook],
                                           LoggerLevel := DebugLevel,
                                           Out := Discard\<rparr>\<rparr>))"

text \<open>
  \<open>Hook.Fire\<close>: the message is appended to the file of the hook; writing to a file that
  was opened succeeds.
\<close>

definition Fire :: "logEnv \<Rightarrow> Hook \<Rightarrow> Entry \<Rightarrow> logState \<Rightarrow> error option \<times> logState" where
  "Fire env r entry st =
     (case format env entry of
        Inl err \<Rightarrow> (Some (Wrapped err []), st)
      | Inr msg \<Rightarrow>
          if \<not> canOpen env (hookPath r)
          then (Some (Wrapped (SystemError (''open '' @ hookPath r)) []), st)
          else (None,
                st\<lparr>files := (files st)(hookPath r \<mapsto>
                     (case files st (hookPath r) of None \<Rightarrow> [] | Some old \<Rightarrow> old) @ msg)\<rparr>))"

text \<open>\<open>Hook.Levels\<close> returns \<open>log.AllLevels\<close>.\<close>

definition Levels :: "Hook \<Rightarrow> Level list" where
  "Levels r = [PanicLevel, FatalLevel, ErrorLevel, WarnLevel, InfoLevel, DebugLevel]"

text \<open>
  What \<open>logrus\<close> does with an entry that is logged through the standard logger: an entry
  above the level of the logger is dropped; otherwise the hooks registered for the level
  of the entry are fired in order, up to the first that fails, which is reported on the
  console; then the entry is written to the output of the logger.
\<close>

fun levelNumber :: "Level \<Rightarrow> nat" where
  "levelNumber PanicLevel = 0"
| "levelNumber FatalLevel = 1"
| "levelNumber ErrorLevel = 2"
| "levelNumber WarnLevel = 3"
| "levelNumber InfoLevel = 4"
| "levelNumber DebugLevel = 5"

fun fireHooks :: "logEnv \<Rightarrow> Hook list \<Rightarrow> Entry \<Rightarrow> logState \<Rightarrow> error option \<times> logState" where
  "fireHooks env [] entry st = (None, st)"
| "fireHooks env (r # rs) entry st =
     (if EntryLevel entry \<in> set (Levels r)
      then case Fire env r entry st of
             (Some err, st') \<Rightarrow> (Some err, st')
           | (None, st') \<Rightarrow> fireHooks env rs entry st'
      else fireHooks env rs entry st)"

definition writeOut :: "writer \<Rightarrow> string \<Rightarrow> logState \<Rightarrow> logState" where
  "writeOut out msg st = (case out of Stderr \<Rightarrow> st\<lparr>console := console st @ msg\<rparr> | Discard \<Rightarrow> st)"

definition logEntry :: "logEnv \<Rightarrow> Entry \<Rightarrow> logState \<Rightarrow> logState" where
  "logEntry env entry st =
     (if levelNumber (LoggerLevel (logger st)) < levelNumber (EntryLevel entry) then st
      else
        (let st1 = (case fireHooks env (Hooks (logger st)) entry st of
                      (Some err, st') \<Rightarrow> st'\<lparr>console := console st' @ ''Failed to fire hook''\<rparr>
                    | (None, st') \<Rightarrow> st')
         in case format env entry of
              Inl err \<Rightarrow> st1\<lparr>console := console st1 @ ''Failed to obtain reader''\<rparr>
            | Inr msg \<Rightarrow> writeOut (Out (logger st1)) msg st1))"

section \<open>Concrete inputs\<close>

definition demoHost :: host where
  "demoHost =
     \<lparr>Stat = (\<lambda>p. if p = ''/var/lib/gravity'' then StatDir else StatNotExist),
      Dir = (\<lambda>p. ''/''),
      EvalSymlinks = (\<lambda>p. Inr p),
      sortChildPathFirst = (\<lambda>ms. ms),
      humanizeBytes = (\<lambda>b. if b = 53687091200 then ''54 GB''
                          else if b = 107374182400 then ''107 GB'' else ''1.0 kB''),
      NewProbeFromErr = (\<lambda>name detail err.
        \<lparr>Checker = name, Detail = detail, Status = Probe_Failed, Error = ''error''\<rparr>)\<rparr>"

definition demoMount :: "string \<Rightarrow> FileSystem" where
  "demoMount fstype =
     \<lparr>DirName = ''/var'', DevName = ''/dev/sdb1'', TypeName = ''local'',
      SysTypeName = fstype, Options = ''rw'', Flags = 0\<rparr>"

definition demoOS :: "string \<Rightarrow> osInterface" where
  "demoOS fstype =
     \<lparr>mounts = Inr [demoMount fstype],
      diskSpeed = (\<lambda>p prefix. Inr 20),
      diskCapacity = (\<lambda>p. Inr 53687091200)\<rparr>"

definition demoChecker :: storageChecker where
  "demoChecker =
     \<lparr>Path = ''/var/lib/gravity'', WillBeCreated = False, MinBytesPerSecond = 10,
      Filesystems = [''ext4''], MinFreeBytes = 107374182400, path = ''/var/lib/gravity''\<rparr>"

definition demoPassChecker :: storageChecker where
  "demoPassChecker = demoChecker\<lparr>Filesystems := [], MinFreeBytes := 1024\<rparr>"


definition demoMaster :: Server where
  "demoMaster =
     \<lparr>Hostname = ''node-1'', AdvertiseIP = ''10.0.0.1'', Role = ''master'', ClusterRole = ''master''\<rparr>"

definition demoNode :: Server where
  "demoNode =
     \<lparr>Hostname = ''node-2'', AdvertiseIP = ''10.0.0.2'', Role = ''worker'', ClusterRole = ''node''\<rparr>"

definition demoServers :: "Server list" where
  "demoServers = [demoMaster, demoNode]"

definition demoPlan :: OperationPlan where
  "demoPlan = \<lparr>OperationID = ''op-1'', ClusterName = ''example.com'', Servers = demoServers\<rparr>"

definition demoLocator :: Locator where
  "demoLocator = \<lparr>Repository = ''gravitational.io'', LocName = ''dns-app'', Version = ''0.0.1''\<rparr>"

definition demoData :: PhaseData where
  "demoData =
     \<lparr>DataServer = Some demoNode, Package = Some demoLocator,
      ServiceUser = Some \<lparr>OSName = ''planet'', OSUID = ''1000'', OSGID = ''1000''\<rparr>,
      Resources = []\<rparr>"

definition demoParams :: ExecutorParams where
  "demoParams = \<lparr>Plan = demoPlan, Phase = \<lparr>ID = ''/app'', Data = Some demoData\<rparr>\<rparr>"

text \<open>The same phase without a service user.\<close>

definition demoDataNoUser :: PhaseData where
  "demoDataNoUser = demoData\<lparr>ServiceUser := None\<rparr>"

definition demoParamsNoUser :: ExecutorParams where
  "demoParamsNoUser = \<lparr>Plan = demoPlan, Phase = \<lparr>ID = ''/app'', Data = Some demoDataNoUser\<rparr>\<rparr>"

definition demoUserFromOSUser :: "OSUser \<Rightarrow> error + User" where
  "demoUserFromOSUser u = Inr \<lparr>UserName = OSName u, UID = 1000, GID = 1000\<rparr>"

definition demoApp :: "string appExecutor" where
  "demoApp =
     \<lparr>FieldLogger = \<lparr>FieldInstallPhase = ''/app'', Key = ''op-1'', LoggerServer = Some demoNode\<rparr>,
      appServiceUser = \<lparr>UserName = ''planet'', UID = 1000, GID = 1000\<rparr>,
      appParams = demoParams\<rparr>"

definition demoWorld :: world where
  "demoWorld = \<lparr>clock = 0, events = [], agentCalls = 0, node = None\<rparr>"



text \<open>A function that fails on its first two invocations, with a different error each time.\<close>

definition demoFlaky :: "world \<Rightarrow> error option \<times> world" where
  "demoFlaky w =
     (if agentCalls w < 2 then Some (SystemError (''failure '' @ natDigits (agentCalls w))) else None,
      w\<lparr>agentCalls := Suc (agentCalls w)\<rparr>)"

text \<open>
  A planet agent that cannot be reached at first, then reports one node of two and a
  degraded system, and from the third call on reports both nodes and a running system.
\<close>

definition demoAgent :: "nat \<Rightarrow> error + Agent" where
  "demoAgent k =
     (if k = 0 then Inl (SystemError ''connection refused'')
      else if k = 1 then Inr \<lparr>SystemStatus = SystemStatus_Degraded, Nodes = [''node-1'']\<rparr>
      else Inr \<lparr>SystemStatus = SystemStatus_Running, Nodes = [''node-1'', ''node-2'']\<rparr>)"

definition demoDefaults :: "nat \<Rightarrow> defaults" where
  "demoDefaults attempts =
     \<lparr>RetryInterval = 5, RetryAttempts = attempts, RetryLessAttempts = 20,
      LabelRetryAttempts = 50\<rparr>"



text \<open>
  Logging as the process starts it: no hooks, level \<open>Info\<close>, output to the console; every
  file can be opened, and an entry is formatted as its message.
\<close>

definition demoLogEnv :: logEnv where
  "demoLogEnv = \<lparr>canOpen = (\<lambda>pth. True), format = (\<lambda>entry. Inr (Message entry))\<rparr>"

definition demoLogState :: logState where
  "demoLogState =
     \<lparr>logger = \<lparr>Hooks = [], LoggerLevel = InfoLevel, Out = Stderr\<rparr>,
      files = (\<lambda>pth. None),
      console = []\<rparr>"

section \<open>Properties of the storage checker\<close>


lemma sublist_in: "ys = ps @ xs @ ss \<Longrightarrow> sublist xs ys"
  unfolding sublist_def by blast

text \<open>
  C6: when the available capacity of the path is strictly below \<open>MinFreeBytes\<close>,
  \<open>checkCapacity\<close> adds one probe to the reporter, with status \<open>Failed\<close>, whose detail
  contains the available amount and the required amount, both as \<open>humanize.Bytes\<close>
  formats them, and \<open>checkCapacity\<close> returns no error.
\<close>

theorem checkCapacity_below_floor:
  assumes "diskCapacity os (path c) = Inr avail" and "avail < MinFreeBytes c"
  shows "\<exists>probe. checkCapacity h os c reporter = (None, reporter @ [probe])
           \<and> Checker probe = Name c \<and> Status probe = Probe_Failed
           \<and> sublist (humanizeBytes h avail) (Detail probe)
           \<and> sublist (humanizeBytes h (MinFreeBytes c)) (Detail probe)"
proof -
  let ?d = "humanizeBytes h avail @ '' available space left on '' @ Path c
              @ '', minimum of '' @ humanizeBytes h (MinFreeBytes c) @ '' required''"
  let ?p = "\<lparr>Checker = Name c, Detail = ?d, Status = Probe_Failed, Error = []\<rparr>"
  have run: "checkCapacity h os c reporter = (None, reporter @ [?p])"
    using assms by (simp add: checkCapacity_def Add_def)
  have s1: "sublist (humanizeBytes h avail) (Detail ?p)"
    by (rule sublist_in [where ps = "[]" and ss = "'' available space left on '' @ Path c
              @ '', minimum of '' @ humanizeBytes h (MinFreeBytes c) @ '' required''"]) simp
  have s2: "sublist (humanizeBytes h (MinFreeBytes c)) (Detail ?p)"
    by (rule sublist_in [where ps = "humanizeBytes h avail @ '' available space left on ''
              @ Path c @ '', minimum of ''" and ss = "'' required''"]) simp
  have "Checker ?p = Name c" and "Status ?p = Probe_Failed"
    by simp_all
  with run s1 s2 show ?thesis
    by blast
qed

text \<open>50 GiB available against a floor of 100 GiB.\<close>

theorem checkCapacity_below_floor_witness:
  "diskCapacity (demoOS ''xfs'') (path demoChecker) = Inr 53687091200
   \<and> (53687091200 :: 64 word) < MinFreeBytes demoChecker
   \<and> checkCapacity demoHost (demoOS ''xfs'') demoChecker [] =
       (None, [\<lparr>Checker = ''io-check(/var/lib/gravity)'',
                Detail = ''54 GB available space left on /var/lib/gravity, minimum of 107 GB required'',
                Status = Probe_Failed, Error = []\<rparr>])
   \<and> sublist ''54 GB'' ''54 GB available space left on /var/lib/gravity, minimum of 107 GB required''
   \<and> sublist ''107 GB'' ''54 GB available space left on /var/lib/gravity, minimum of 107 GB required''"
proof -
  have a: "diskCapacity (demoOS ''xfs'') (path demoChecker) = Inr 53687091200"
    by (simp add: demoOS_def)
  have b: "(53687091200 :: 64 word) < MinFreeBytes demoChecker"
    by (simp add: demoChecker_def)
  have c: "checkCapacity demoHost (demoOS ''xfs'') demoChecker [] =
       (None, [\<lparr>Checker = ''io-check(/var/lib/gravity)'',
                Detail = ''54 GB available space left on /var/lib/gravity, minimum of 107 GB required'',
                Status = Probe_Failed, Error = []\<rparr>])"
    by (simp add: checkCapacity_def demoOS_def demoChecker_def demoHost_def Add_def Name_def
        storageWriteCheckerID_def)
  have d: "sublist ''54 GB'' ''54 GB available space left on /var/lib/gravity, minimum of 107 GB required''"
    and e: "sublist ''107 GB'' ''54 GB available space left on /var/lib/gravity, minimum of 107 GB required''"
    using checkCapacity_below_floor [OF a b, of demoHost "[]"] unfolding c
    by (simp_all add: demoHost_def demoChecker_def)
  from a b c d e show ?thesis
    by blast
qed




lemma evalPath_existing: "Stat h (Path c) = StatDir \<Longrightarrow> evalPath h c = Some (Inr (c\<lparr>path := Path c\<rparr>))"
  unfolding evalPath_def by (subst evalPathFrom.simps) simp

lemma checkFsType_adds:
  "\<exists>e fs. checkFsType h os c r = (e, r @ fs)
     \<and> length fs = (if Filesystems c \<noteq> [] \<and> (\<exists>mnt. fsFromPath h (path c) os = Inr mnt) then 1 else 0)
     \<and> set (map Status fs) \<subseteq> {Probe_Running, Probe_Failed}"
  by (cases "fsFromPath h (path c) os")
     (auto simp: checkFsType_def Add_def newProbe_def Let_def)

lemma checkCapacity_adds:
  "\<exists>e cap. checkCapacity h os c r = (e, r @ cap)
     \<and> length cap = (if \<exists>avail. diskCapacity os (path c) = Inr avail \<and> avail < MinFreeBytes c then 1 else 0)
     \<and> set (map Status cap) \<subseteq> {Probe_Failed}"
  by (cases "diskCapacity os (path c)") (auto simp: checkCapacity_def Add_def)

lemma checkWriteSpeed_adds:
  "\<exists>e spd. checkWriteSpeed h os c r = (e, r @ spd)
     \<and> length spd = (if MinBytesPerSecond c \<noteq> 0
           \<and> (\<exists>bps. diskSpeed os (path c) ''probe'' = Inr bps \<and> bps < MinBytesPerSecond c) then 1 else 0)
     \<and> set (map Status spd) \<subseteq> {Probe_Failed}"
  by (cases "diskSpeed os (path c) ''probe''") (auto simp: checkWriteSpeed_def Add_def)

lemma NewAggregate_None: "NewAggregate [e1, e2, e3] = None \<longleftrightarrow> e1 = None \<and> e2 = None \<and> e3 = None"
  by (cases e1; cases e2; cases e3) (simp_all add: NewAggregate_def List.map_filter_def)

text \<open>
  C5, as the code has it: on an existing directory \<open>Check\<close> runs the three checks in
  order and then adds one probe of its own. The filesystem check adds exactly one probe,
  \<open>Running\<close> or \<open>Failed\<close>, when an allow-list is configured and the mount is found, and
  none otherwise. The capacity check adds exactly one probe, \<open>Failed\<close>, when the available
  capacity is below the floor, and none otherwise. The write-speed check adds exactly one
  probe, \<open>Failed\<close>, when a minimum speed is configured and the measured speed is below it,
  and none otherwise. The probe of \<open>Check\<close> itself is \<open>Running\<close> when none of the three
  checks returned an error.
\<close>

theorem Check_probes_per_dimension:
  assumes "Stat h (Path c) = StatDir"
  shows "\<exists>e1 e2 e3 fs cap spd overall.
      checkFsType h os (c\<lparr>path := Path c\<rparr>) reporter = (e1, reporter @ fs)
    \<and> checkCapacity h os (c\<lparr>path := Path c\<rparr>) (reporter @ fs) = (e2, reporter @ fs @ cap)
    \<and> checkWriteSpeed h os (c\<lparr>path := Path c\<rparr>) (reporter @ fs @ cap) = (e3, reporter @ fs @ cap @ spd)
    \<and> Check h os c reporter = Some (c\<lparr>path := Path c\<rparr>, reporter @ fs @ cap @ spd @ [overall])
    \<and> length fs = (if Filesystems c \<noteq> [] \<and> (\<exists>mnt. fsFromPath h (Path c) os = Inr mnt) then 1 else 0)
    \<and> set (map Status fs) \<subseteq> {Probe_Running, Probe_Failed}
    \<and> length cap = (if \<exists>avail. diskCapacity os (Path c) = Inr avail \<and> avail < MinFreeBytes c then 1 else 0)
    \<and> set (map Status cap) \<subseteq> {Probe_Failed}
    \<and> length spd = (if MinBytesPerSecond c \<noteq> 0
          \<and> (\<exists>bps. diskSpeed os (Path c) ''probe'' = Inr bps \<and> bps < MinBytesPerSecond c) then 1 else 0)
    \<and> set (map Status spd) \<subseteq> {Probe_Failed}
    \<and> (e1 = None \<and> e2 = None \<and> e3 = None \<longrightarrow>
          overall = \<lparr>Checker = Name c, Detail = [], Status = Probe_Running, Error = []\<rparr>)"
proof -
  let ?c = "c\<lparr>path := Path c\<rparr>"
  obtain e1 fs where fs: "checkFsType h os ?c reporter = (e1, reporter @ fs)"
    "length fs = (if Filesystems c \<noteq> [] \<and> (\<exists>mnt. fsFromPath h (Path c) os = Inr mnt) then 1 else 0)"
    "set (map Status fs) \<subseteq> {Probe_Running, Probe_Failed}"
    using checkFsType_adds [of h os ?c reporter] by auto
  obtain e2 cap where cap: "checkCapacity h os ?c (reporter @ fs) = (e2, reporter @ fs @ cap)"
    "length cap = (if \<exists>avail. diskCapacity os (Path c) = Inr avail \<and> avail < MinFreeBytes c then 1 else 0)"
    "set (map Status cap) \<subseteq> {Probe_Failed}"
    using checkCapacity_adds [of h os ?c "reporter @ fs"] by auto
  obtain e3 spd where spd: "checkWriteSpeed h os ?c (reporter @ fs @ cap) = (e3, reporter @ fs @ cap @ spd)"
    "length spd = (if MinBytesPerSecond c \<noteq> 0
          \<and> (\<exists>bps. diskSpeed os (Path c) ''probe'' = Inr bps \<and> bps < MinBytesPerSecond c) then 1 else 0)"
    "set (map Status spd) \<subseteq> {Probe_Failed}"
    using checkWriteSpeed_adds [of h os ?c "reporter @ fs @ cap"] by auto
  have chk: "check h os c reporter = Some (?c, NewAggregate [e1, e2, e3], reporter @ fs @ cap @ spd)"
    using fs(1) cap(1) spd(1) by (simp add: check_def evalPath_existing [OF assms])
  have "\<exists>overall. Check h os c reporter = Some (?c, reporter @ fs @ cap @ spd @ [overall])
      \<and> (e1 = None \<and> e2 = None \<and> e3 = None \<longrightarrow>
          overall = \<lparr>Checker = Name c, Detail = [], Status = Probe_Running, Error = []\<rparr>)"
  proof (cases "NewAggregate [e1, e2, e3]")
    case None
    then show ?thesis
      by (simp add: Check_def chk Add_def newProbe_def Name_def)
  next
    case (Some err)
    then have "\<not> (e1 = None \<and> e2 = None \<and> e3 = None)"
      using NewAggregate_None [of e1 e2 e3] by simp
    with Some show ?thesis
      by (auto simp: Check_def chk Add_def)
  qed
  then obtain overall where ov: "Check h os c reporter = Some (?c, reporter @ fs @ cap @ spd @ [overall])"
    "e1 = None \<and> e2 = None \<and> e3 = None \<longrightarrow>
          overall = \<lparr>Checker = Name c, Detail = [], Status = Probe_Running, Error = []\<rparr>"
    by blast
  show ?thesis
    apply (intro exI conjI)
              apply (rule fs(1))
             apply (rule cap(1))
            apply (rule spd(1))
           apply (rule ov(1))
          apply (rule fs(2))
         apply (rule fs(3))
        apply (rule cap(2))
       apply (rule cap(3))
      apply (rule spd(2))
     apply (rule spd(3))
    apply (rule ov(2))
    done
qed

text \<open>
  The allow-list \<open>ext4\<close> with the path on \<open>xfs\<close>, 50 GiB available against a floor of
  100 GiB, and a write speed above the minimum: two failed probes and the probe of
  \<open>Check\<close>, which is \<open>Running\<close>.
\<close>

theorem Check_probes_per_dimension_witness:
  "Stat demoHost (Path demoChecker) = StatDir
   \<and> Check demoHost (demoOS ''xfs'') demoChecker [] =
       Some (demoChecker,
             [\<lparr>Checker = ''io-check(/var/lib/gravity)'',
               Detail = ''path /var/lib/gravity requires filesystem [ext4], belongs to /var mount point of type xfs'',
               Status = Probe_Failed, Error = []\<rparr>,
              \<lparr>Checker = ''io-check(/var/lib/gravity)'',
               Detail = ''54 GB available space left on /var/lib/gravity, minimum of 107 GB required'',
               Status = Probe_Failed, Error = []\<rparr>,
              \<lparr>Checker = ''io-check(/var/lib/gravity)'', Detail = [],
               Status = Probe_Running, Error = []\<rparr>])"
proof -
  have a: "Stat demoHost (Path demoChecker) = StatDir"
    by (simp add: demoHost_def demoChecker_def)
  have e: "demoChecker\<lparr>path := Path demoChecker\<rparr> = demoChecker"
    by (simp add: demoChecker_def)
  have n: "Name demoChecker = ''io-check(/var/lib/gravity)''"
    by (simp add: Name_def storageWriteCheckerID_def demoChecker_def)
  have m: "fsFromPath demoHost (path demoChecker) (demoOS ''xfs'') = Inr (demoMount ''xfs'')"
    by (simp add: fsFromPath_def demoHost_def demoChecker_def demoOS_def demoMount_def)
  have b: "checkFsType demoHost (demoOS ''xfs'') demoChecker [] =
       (None, [\<lparr>Checker = ''io-check(/var/lib/gravity)'',
                Detail = ''path /var/lib/gravity requires filesystem [ext4], belongs to /var mount point of type xfs'',
                Status = Probe_Failed, Error = []\<rparr>])"
    by (simp add: checkFsType_def m n Add_def newProbe_def)
       (simp add: demoChecker_def demoMount_def fmtStrings_def)
  have c: "checkCapacity demoHost (demoOS ''xfs'') demoChecker r =
       (None, r @ [\<lparr>Checker = ''io-check(/var/lib/gravity)'',
                Detail = ''54 GB available space left on /var/lib/gravity, minimum of 107 GB required'',
                Status = Probe_Failed, Error = []\<rparr>])" for r
    by (simp add: checkCapacity_def demoOS_def demoChecker_def demoHost_def Add_def Name_def
        storageWriteCheckerID_def)
  have d: "checkWriteSpeed demoHost (demoOS ''xfs'') demoChecker r = (None, r)" for r
    by (simp add: checkWriteSpeed_def demoOS_def demoChecker_def)
  have f: "Check demoHost (demoOS ''xfs'') demoChecker [] =
       Some (demoChecker,
             [\<lparr>Checker = ''io-check(/var/lib/gravity)'',
               Detail = ''path /var/lib/gravity requires filesystem [ext4], belongs to /var mount point of type xfs'',
               Status = Probe_Failed, Error = []\<rparr>,
              \<lparr>Checker = ''io-check(/var/lib/gravity)'',
               Detail = ''54 GB available space left on /var/lib/gravity, minimum of 107 GB required'',
               Status = Probe_Failed, Error = []\<rparr>,
              \<lparr>Checker = ''io-check(/var/lib/gravity)'', Detail = [],
               Status = Probe_Running, Error = []\<rparr>])"
    by (simp add: Check_def check_def evalPath_existing [OF a] e b c d NewAggregate_def
        List.map_filter_def Add_def newProbe_def n)
  from Check_probes_per_dimension [OF a, of "demoOS ''xfs''" "[]"] a f show ?thesis
    by blast
qed

text \<open>
  C5 as stated fails: with no allow-list, a capacity above the floor and a write speed
  above the configured minimum, neither the capacity check nor the write-speed check adds
  a probe, and the reporter holds the one probe of \<open>Check\<close>.
\<close>

theorem Check_probes_per_dimension_counterexample:
  "Stat demoHost (Path demoPassChecker) = StatDir
   \<and> MinBytesPerSecond demoPassChecker \<noteq> 0
   \<and> checkCapacity demoHost (demoOS ''xfs'') demoPassChecker [] = (None, [])
   \<and> checkWriteSpeed demoHost (demoOS ''xfs'') demoPassChecker [] = (None, [])
   \<and> Check demoHost (demoOS ''xfs'') demoPassChecker [] =
       Some (demoPassChecker,
             [\<lparr>Checker = ''io-check(/var/lib/gravity)'', Detail = [],
               Status = Probe_Running, Error = []\<rparr>])"
proof -
  have a: "Stat demoHost (Path demoPassChecker) = StatDir"
    by (simp add: demoHost_def demoPassChecker_def demoChecker_def)
  have b: "checkCapacity demoHost (demoOS ''xfs'') demoPassChecker r = (None, r)" for r
    by (simp add: checkCapacity_def demoOS_def demoPassChecker_def demoChecker_def)
  have c: "checkWriteSpeed demoHost (demoOS ''xfs'') demoPassChecker r = (None, r)" for r
    by (simp add: checkWriteSpeed_def demoOS_def demoPassChecker_def demoChecker_def)
  have d: "checkFsType demoHost (demoOS ''xfs'') demoPassChecker r = (None, r)" for r
    by (simp add: checkFsType_def demoPassChecker_def demoChecker_def)
  have e: "demoPassChecker\<lparr>path := Path demoPassChecker\<rparr> = demoPassChecker"
    by (simp add: demoPassChecker_def demoChecker_def)
  have f: "Check demoHost (demoOS ''xfs'') demoPassChecker [] =
       Some (demoPassChecker, [\<lparr>Checker = Name demoPassChecker, Detail = [],
               Status = Probe_Running, Error = []\<rparr>])"
    by (simp add: Check_def check_def evalPath_existing [OF a] e b c d NewAggregate_def
        List.map_filter_def Add_def newProbe_def)
  have g: "Name demoPassChecker = ''io-check(/var/lib/gravity)''"
    by (simp add: Name_def storageWriteCheckerID_def demoPassChecker_def demoChecker_def)
  have h: "MinBytesPerSecond demoPassChecker \<noteq> 0"
    by (simp add: demoPassChecker_def demoChecker_def)
  show ?thesis
    unfolding b c f g using a h by simp
qed

section \<open>Properties of the app phase\<close>

text \<open>
  C2: when the data of the phase or the service user in it is missing, \<open>NewApp\<close> returns
  no executor and the error \<open>BadParameter\<close> "service user is required": the construction
  fails, and there is no executor whose \<open>Execute\<close> could run.
\<close>

theorem NewApp_service_user_required:
  assumes "Data (Phase p) = None \<or> (\<exists>d. Data (Phase p) = Some d \<and> ServiceUser d = None)"
  shows "NewApp userFromOSUser opKey p = Inl (BadParameter ''service user is required'')
       \<and> (\<nexists>executor. NewApp userFromOSUser opKey p = Inr executor)"
  using assms by (auto simp: NewApp_def)

theorem NewApp_service_user_required_witness:
  "Data (Phase demoParamsNoUser) = Some demoDataNoUser
   \<and> ServiceUser demoDataNoUser = None
   \<and> NewApp demoUserFromOSUser OperationID demoParamsNoUser
       = Inl (BadParameter ''service user is required'')
   \<and> NewApp demoUserFromOSUser OperationID demoParams = Inr demoApp"
proof -
  have b: "Data (Phase demoParamsNoUser) = Some demoDataNoUser"
    and c: "ServiceUser demoDataNoUser = None"
    by (simp_all add: demoParamsNoUser_def demoDataNoUser_def)
  from b c have a: "Data (Phase demoParamsNoUser) = None
      \<or> (\<exists>d. Data (Phase demoParamsNoUser) = Some d \<and> ServiceUser d = None)"
    by blast
  have d: "NewApp demoUserFromOSUser OperationID demoParams = Inr demoApp"
    by (simp add: NewApp_def demoParams_def demoData_def demoUserFromOSUser_def demoApp_def
        demoPlan_def)
  from b c d NewApp_service_user_required [OF a] show ?thesis
    by blast
qed

text \<open>
  C8: \<open>Rollback\<close> of the app, rbac and resources executors returns \<open>nil\<close> and leaves the
  executor, with the plan in it, and everything outside it as they were.
\<close>

theorem Rollback_noop:
  "appRollback ae w1 = (Returned None, ae, w1)
   \<and> rbacRollback re w2 = (Returned None, re, w2)
   \<and> resourcesRollback se w3 = (Returned None, se, w3)
   \<and> Plan (appParams (fst (snd (appRollback ae w1)))) = Plan (appParams ae)
   \<and> Plan (rbacParams (fst (snd (rbacRollback re w2)))) = Plan (rbacParams re)
   \<and> Plan (resourcesParams (fst (snd (resourcesRollback se w3)))) = Plan (resourcesParams se)"
  by (simp add: appRollback_def rbacRollback_def resourcesRollback_def)





section \<open>Properties of Retry\<close>

lemma length_invocations: "length (invocations period n fn w) = n"
  by (induction n arbitrary: w) simp_all

lemma invocations_snoc: "\<exists>y. invocations period (Suc n) fn w = invocations period n fn w @ [y]"
proof (induction n arbitrary: w)
  case 0
  show ?case by simp
next
  case (Suc n)
  from Suc [of "sleep period (snd (fn w))"] obtain y
    where "invocations period (Suc n) fn (sleep period (snd (fn w)))
             = invocations period n fn (sleep period (snd (fn w))) @ [y]"
    by blast
  then show ?case by simp
qed

lemma invocations_butlast:
  assumes "map fst (invocations period (Suc n) fn w) = xs @ [x]"
  shows "map fst (invocations period n fn w) = xs"
proof -
  obtain y where "invocations period (Suc n) fn w = invocations period n fn w @ [y]"
    using invocations_snoc by blast
  with assms have "map fst (invocations period n fn w) @ [fst y] = xs @ [x]"
    by (simp del: invocations.simps)
  then show ?thesis by simp
qed

lemma retryLoop_succeeds:
  assumes "map fst (invocations period (Suc (length errs)) fn w) = map Some errs @ [None]"
    and "length errs < M"
  shows "retryLoop period M lastErr fn w = last (invocations period (Suc (length errs)) fn w)"
  using assms
proof (induction errs arbitrary: w M lastErr)
  case Nil
  then obtain m where "M = Suc m"
    by (cases M) auto
  with Nil show ?case
    by (cases "fn w") simp
next
  case (Cons e es)
  then obtain m where m: "M = Suc m" "length es < m"
    by (cases M) auto
  from Cons.prems(1) have now: "fst (fn w) = Some e"
    and rest: "map fst (invocations period (Suc (length es)) fn (sleep period (snd (fn w))))
                 = map Some es @ [None]"
    by simp_all
  have "retryLoop period M lastErr fn w
          = retryLoop period m (Some e) fn (sleep period (snd (fn w)))"
    using now m(1) by (cases "fn w") simp
  also have "\<dots> = last (invocations period (Suc (length es)) fn (sleep period (snd (fn w))))"
    by (rule Cons.IH [OF rest m(2)])
  finally show ?case
    by simp
qed

lemma retryLoop_exhausted:
  assumes "map fst (invocations period (length errs) fn w) = map Some errs"
  shows "fst (retryLoop period (length errs) lastErr fn w)
           = (if errs = [] then lastErr else Some (last errs))"
  using assms
proof (induction errs arbitrary: w lastErr)
  case Nil
  show ?case by simp
next
  case (Cons e es)
  from Cons.prems have now: "fst (fn w) = Some e"
    and rest: "map fst (invocations period (length es) fn (sleep period (snd (fn w))))
                 = map Some es"
    by simp_all
  have "retryLoop period (length (e # es)) lastErr fn w
          = retryLoop period (length es) (Some e) fn (sleep period (snd (fn w)))"
    using now by (cases "fn w") simp
  with Cons.IH [OF rest, of "Some e"] show ?case
    by simp
qed

text \<open>
  C3: let the function fail on its first \<open>N - 1\<close> invocations, with the errors \<open>errs\<close>,
  and succeed on invocation \<open>N\<close>. Then \<open>Retry\<close> with a budget of \<open>N\<close> attempts, or more,
  returns success and stops at the successful invocation: its result and the world it
  leaves are those of invocation \<open>N\<close>. With a budget of \<open>N - 1\<close> attempts it returns the
  error of the last invocation.
\<close>

theorem Retry_budget:
  assumes "map fst (invocations period N fn w) = map Some errs @ [None]"
  shows "length errs = N - 1
       \<and> fst (Retry period N fn w) = None
       \<and> (\<forall>M \<ge> N. Retry period M fn w = last (invocations period N fn w))
       \<and> (errs \<noteq> [] \<longrightarrow> fst (Retry period (N - 1) fn w) = Some (last errs))"
proof -
  have "length (map fst (invocations period N fn w)) = length (map Some errs @ [None])"
    using assms by simp
  then have N: "N = Suc (length errs)"
    by (simp add: length_invocations)
  have all: "Retry period M fn w = last (invocations period N fn w)" if "N \<le> M" for M
    unfolding Retry_def N using assms that by (intro retryLoop_succeeds) (simp_all add: N)
  have nonempty: "invocations period N fn w \<noteq> []"
    using length_invocations [of period N fn w] N by auto
  have "last (map fst (invocations period N fn w)) = None"
    using assms by simp
  then have "fst (last (invocations period N fn w)) = None"
    by (simp only: last_map [OF nonempty])
  with all [of N] have ok: "fst (Retry period N fn w) = None"
    by simp
  have "map fst (invocations period (length errs) fn w) = map Some errs"
    using assms unfolding N by (rule invocations_butlast)
  from retryLoop_exhausted [OF this, of None]
  have "errs \<noteq> [] \<longrightarrow> fst (Retry period (N - 1) fn w) = Some (last errs)"
    by (simp add: Retry_def N)
  with N ok all show ?thesis
    by simp
qed

text \<open>
  Two failures, then success: a budget of three attempts returns success after the third
  invocation, two intervals later; a budget of two attempts returns the second error.
\<close>

theorem Retry_budget_witness:
  "map fst (invocations 5 3 demoFlaky demoWorld)
     = map Some [SystemError ''failure 0'', SystemError ''failure 1''] @ [None]
   \<and> Retry 5 3 demoFlaky demoWorld = (None, demoWorld\<lparr>clock := 10, agentCalls := 3\<rparr>)
   \<and> Retry 5 7 demoFlaky demoWorld = (None, demoWorld\<lparr>clock := 10, agentCalls := 3\<rparr>)
   \<and> fst (Retry 5 2 demoFlaky demoWorld) = Some (SystemError ''failure 1'')"
proof -
  have a: "map fst (invocations 5 3 demoFlaky demoWorld)
     = map Some [SystemError ''failure 0'', SystemError ''failure 1''] @ [None]"
    by code_simp
  have b: "last (invocations 5 3 demoFlaky demoWorld) = (None, demoWorld\<lparr>clock := 10, agentCalls := 3\<rparr>)"
    by code_simp
  from Retry_budget [OF a] b show ?thesis
    using a by simp
qed

section \<open>Properties of the wait phase\<close>

lemma waitAttempt_world: "snd (waitAttempt agent p v) = v\<lparr>agentCalls := Suc (agentCalls v)\<rparr>"
  by (simp add: waitAttempt_def FromPlanetAgent_def split: sum.splits)

lemma waitAttempt_result:
  "agentCalls u = agentCalls v \<Longrightarrow> fst (waitAttempt agent p u) = fst (waitAttempt agent p v)"
  by (simp add: waitAttempt_def FromPlanetAgent_def split: sum.splits)

lemma waitAttempt_None_iff:
  "fst (waitAttempt agent p v) = None \<longleftrightarrow>
     (\<exists>st. agent (agentCalls v) = Inr st \<and> SystemStatus st = SystemStatus_Running
        \<and> length (Nodes st) = length (Servers (Plan p)))"
  by (auto simp: waitAttempt_def FromPlanetAgent_def split: sum.splits)

lemma waitAttempt_rejects:
  assumes "agent (agentCalls v) = Inr st"
    and "length (Nodes st) \<noteq> length (Servers (Plan p)) \<or> SystemStatus st \<noteq> SystemStatus_Running"
  shows "\<exists>e. fst (waitAttempt agent p v) = Some e \<and> IsBadParameter e"
  using assms by (auto simp: waitAttempt_def FromPlanetAgent_def)

lemma retryLoop_wait:
  assumes "retryLoop period n lastErr (waitAttempt agent p) v = (r, v')"
  shows "\<exists>c \<le> n. agentCalls v' = agentCalls v + c
      \<and> (\<forall>k. Suc k < c \<longrightarrow> fst (waitAttempt agent p (w\<lparr>agentCalls := agentCalls v + k\<rparr>)) \<noteq> None)
      \<and> ((r = None \<and> 0 < c
            \<and> fst (waitAttempt agent p (w\<lparr>agentCalls := agentCalls v + c - 1\<rparr>)) = None
            \<and> clock v' = clock v + period * (c - 1))
         \<or> (c = n \<and> clock v' = clock v + period * n
            \<and> r = (if n = 0 then lastErr
                    else fst (waitAttempt agent p (w\<lparr>agentCalls := agentCalls v + n - 1\<rparr>)))
            \<and> (0 < n \<longrightarrow> r \<noteq> None)))"
  using assms
proof (induction n arbitrary: lastErr v)
  case 0
  then show ?case by simp
next
  case (Suc n)
  let ?v1 = "v\<lparr>agentCalls := Suc (agentCalls v)\<rparr>"
  have here: "fst (waitAttempt agent p (w\<lparr>agentCalls := agentCalls v\<rparr>)) = fst (waitAttempt agent p v)"
    by (rule waitAttempt_result) simp
  obtain x where x: "waitAttempt agent p v = (x, ?v1)"
    using waitAttempt_world [of agent p v] by (cases "waitAttempt agent p v") simp
  show ?case
  proof (cases x)
    case None
    with Suc.prems x have "r = None" "v' = ?v1"
      by simp_all
    moreover have "fst (waitAttempt agent p (w\<lparr>agentCalls := agentCalls v + 1 - 1\<rparr>)) = None"
      using here x None by simp
    ultimately show ?thesis
      by (intro exI [of _ 1]) simp
  next
    case (Some e)
    with Suc.prems x
    have loop: "retryLoop period n (Some e) (waitAttempt agent p) (sleep period ?v1) = (r, v')"
      by simp
    from Suc.IH [OF loop] obtain c where c: "c \<le> n"
      "agentCalls v' = agentCalls (sleep period ?v1) + c"
      "\<forall>k. Suc k < c \<longrightarrow>
         fst (waitAttempt agent p (w\<lparr>agentCalls := agentCalls (sleep period ?v1) + k\<rparr>)) \<noteq> None"
      "(r = None \<and> 0 < c
          \<and> fst (waitAttempt agent p (w\<lparr>agentCalls := agentCalls (sleep period ?v1) + c - 1\<rparr>)) = None
          \<and> clock v' = clock (sleep period ?v1) + period * (c - 1))
       \<or> (c = n \<and> clock v' = clock (sleep period ?v1) + period * n
          \<and> r = (if n = 0 then Some e
                  else fst (waitAttempt agent p
                         (w\<lparr>agentCalls := agentCalls (sleep period ?v1) + n - 1\<rparr>)))
          \<and> (0 < n \<longrightarrow> r \<noteq> None))"
      by blast
    have calls: "agentCalls (sleep period ?v1) = Suc (agentCalls v)"
      and time: "clock (sleep period ?v1) = clock v + period"
      by (simp_all add: sleep_def)
    have first: "fst (waitAttempt agent p (w\<lparr>agentCalls := agentCalls v\<rparr>)) = Some e"
      using here x Some by simp
    have earlier: "fst (waitAttempt agent p (w\<lparr>agentCalls := agentCalls v + k\<rparr>)) \<noteq> None"
      if "Suc k < Suc c" for k
    proof (cases k)
      case 0
      with first show ?thesis by simp
    next
      case (Suc j)
      with that c(3) calls show ?thesis by simp
    qed
    from c(4) show ?thesis
    proof
      assume ok: "r = None \<and> 0 < c
          \<and> fst (waitAttempt agent p (w\<lparr>agentCalls := agentCalls (sleep period ?v1) + c - 1\<rparr>)) = None
          \<and> clock v' = clock (sleep period ?v1) + period * (c - 1)"
      then have "clock v' = clock v + period * (Suc c - 1)"
        using time by (cases c) (simp_all add: algebra_simps)
      moreover from ok calls
      have "fst (waitAttempt agent p (w\<lparr>agentCalls := agentCalls v + Suc c - 1\<rparr>)) = None"
        by simp
      ultimately show ?thesis
        using c(1,2) calls earlier ok by (intro exI [of _ "Suc c"]) simp
    next
      assume ex: "c = n \<and> clock v' = clock (sleep period ?v1) + period * n
          \<and> r = (if n = 0 then Some e
                  else fst (waitAttempt agent p
                         (w\<lparr>agentCalls := agentCalls (sleep period ?v1) + n - 1\<rparr>)))
          \<and> (0 < n \<longrightarrow> r \<noteq> None)"
      then have r: "r = fst (waitAttempt agent p (w\<lparr>agentCalls := agentCalls v + Suc n - 1\<rparr>))"
        using first calls by (cases n) simp_all
      have "r \<noteq> None"
        using ex by (cases n) auto
      moreover have "clock v' = clock v + period * Suc n"
        using ex time by (simp add: algebra_simps)
      ultimately show ?thesis
        using c(2) calls earlier ex r by (intro exI [of _ "Suc c"]) simp
    qed
  qed
qed

text \<open>
  C4: with a positive attempt budget, \<open>Execute\<close> of the wait phase asks the planet agent
  at least once and at most \<open>RetryAttempts\<close> times, and every attempt but the last has
  failed. When it returns \<open>nil\<close>, the last attempt observed a status that is \<open>Running\<close>
  with as many nodes as the plan has servers, and one interval has passed after each
  failed attempt. When it returns an error, the budget is exhausted, one interval has
  passed after each attempt, and the error wraps the error of the last attempt. An
  attempt that observes another node count or a status that is not \<open>Running\<close> fails.
\<close>

theorem waitExecute_bounded_retry:
  assumes "0 < RetryAttempts df" and "waitExecute df agent p w = (r, w')"
  shows "(\<exists>c. 1 \<le> c \<and> c \<le> RetryAttempts df \<and> agentCalls w' = agentCalls w + c
           \<and> (\<forall>k. Suc k < c \<longrightarrow>
                 fst (waitAttempt agent p (w\<lparr>agentCalls := agentCalls w + k\<rparr>)) \<noteq> None)
           \<and> (r = None \<longrightarrow>
                 (\<exists>st. agent (agentCalls w + c - 1) = Inr st
                    \<and> SystemStatus st = SystemStatus_Running
                    \<and> length (Nodes st) = length (Servers (Plan p)))
                 \<and> clock w' = clock w + RetryInterval df * (c - 1))
           \<and> (r \<noteq> None \<longrightarrow>
                 c = RetryAttempts df \<and> clock w' = clock w + RetryInterval df * c
                 \<and> (\<exists>e. fst (waitAttempt agent p (w\<lparr>agentCalls := agentCalls w + c - 1\<rparr>)) = Some e
                       \<and> r = Some (Wrapped e []))))
       \<and> (\<forall>(v :: 'a world_scheme) st.
             agent (agentCalls v) = Inr st
             \<and> (length (Nodes st) \<noteq> length (Servers (Plan p))
                 \<or> SystemStatus st \<noteq> SystemStatus_Running)
             \<longrightarrow> (\<exists>e. fst (waitAttempt agent p v) = Some e \<and> IsBadParameter e))"
proof (rule conjI)
  let ?w2 = "logAt InfoLevel ''Waiting for the planet to start.''
               (NextStep ''Waiting for the planet to start'' w)"
  let ?n = "RetryAttempts df"
  let ?res = "\<lambda>k. fst (waitAttempt agent p (w\<lparr>agentCalls := agentCalls w + k\<rparr>))"
  obtain r0 w3 where loop:
    "retryLoop (RetryInterval df) ?n None (waitAttempt agent p) ?w2 = (r0, w3)"
    by (cases "retryLoop (RetryInterval df) ?n None (waitAttempt agent p) ?w2")
  have r: "r = (case r0 of None \<Rightarrow> None | Some e \<Rightarrow> Some (Wrapped e []))"
    and after: "agentCalls w' = agentCalls w3" "clock w' = clock w3"
    using assms(2) loop
    by (auto simp: waitExecute_def Retry_def Let_def logAt_def split: option.splits)
  have before: "agentCalls ?w2 = agentCalls w" "clock ?w2 = clock w"
    by (simp_all add: logAt_def NextStep_def)
  note retryLoop_wait [OF loop, of w, unfolded before]
  then obtain c where c: "c \<le> ?n"
    "agentCalls w3 = agentCalls w + c"
    "\<forall>k. Suc k < c \<longrightarrow> ?res k \<noteq> None"
    "(r0 = None \<and> 0 < c
        \<and> fst (waitAttempt agent p (w\<lparr>agentCalls := agentCalls w + c - 1\<rparr>)) = None
        \<and> clock w3 = clock w + RetryInterval df * (c - 1))
     \<or> (c = ?n \<and> clock w3 = clock w + RetryInterval df * ?n
        \<and> r0 = (if ?n = 0 then None
                 else fst (waitAttempt agent p (w\<lparr>agentCalls := agentCalls w + ?n - 1\<rparr>)))
        \<and> (0 < ?n \<longrightarrow> r0 \<noteq> None))"
    by (elim exE conjE) (rule that)
  let ?last = "fst (waitAttempt agent p (w\<lparr>agentCalls := agentCalls w + c - 1\<rparr>))"
  have positive: "1 \<le> c"
    using c(4) assms(1) by auto
  have success: "(\<exists>st. agent (agentCalls w + c - 1) = Inr st
        \<and> SystemStatus st = SystemStatus_Running
        \<and> length (Nodes st) = length (Servers (Plan p)))
      \<and> clock w' = clock w + RetryInterval df * (c - 1)" if "r = None"
  proof -
    from that r have "r0 = None"
      by (cases r0) simp_all
    with c(4) assms(1) have "?last = None"
      and "clock w3 = clock w + RetryInterval df * (c - 1)"
      by auto
    with after(2) show ?thesis
      by (simp add: waitAttempt_None_iff)
  qed
  have failure: "c = ?n \<and> clock w' = clock w + RetryInterval df * c
      \<and> (\<exists>e. ?last = Some e \<and> r = Some (Wrapped e []))" if "r \<noteq> None"
  proof -
    from that r obtain e where e: "r0 = Some e" "r = Some (Wrapped e [])"
      by (cases r0) simp_all
    with c(4) assms(1) have "c = ?n" "clock w3 = clock w + RetryInterval df * ?n"
      "r0 = ?last"
      by auto
    with e after(2) show ?thesis
      by simp
  qed
  show "\<exists>c. 1 \<le> c \<and> c \<le> ?n \<and> agentCalls w' = agentCalls w + c
           \<and> (\<forall>k. Suc k < c \<longrightarrow> ?res k \<noteq> None)
           \<and> (r = None \<longrightarrow>
                 (\<exists>st. agent (agentCalls w + c - 1) = Inr st
                    \<and> SystemStatus st = SystemStatus_Running
                    \<and> length (Nodes st) = length (Servers (Plan p)))
                 \<and> clock w' = clock w + RetryInterval df * (c - 1))
           \<and> (r \<noteq> None \<longrightarrow>
                 c = ?n \<and> clock w' = clock w + RetryInterval df * c
                 \<and> (\<exists>e. fst (waitAttempt agent p (w\<lparr>agentCalls := agentCalls w + c - 1\<rparr>)) = Some e
                       \<and> r = Some (Wrapped e [])))"
  proof (intro exI [of _ c] conjI)
    show "1 \<le> c" by (rule positive)
    show "c \<le> ?n" by (rule c(1))
    show "agentCalls w' = agentCalls w + c" using after(1) c(2) by simp
    show "\<forall>k. Suc k < c \<longrightarrow> ?res k \<noteq> None" by (rule c(3))
    show "r = None \<longrightarrow>
            (\<exists>st. agent (agentCalls w + c - 1) = Inr st
               \<and> SystemStatus st = SystemStatus_Running
               \<and> length (Nodes st) = length (Servers (Plan p)))
            \<and> clock w' = clock w + RetryInterval df * (c - 1)"
      using success by blast
    show "r \<noteq> None \<longrightarrow>
            c = ?n \<and> clock w' = clock w + RetryInterval df * c
            \<and> (\<exists>e. fst (waitAttempt agent p (w\<lparr>agentCalls := agentCalls w + c - 1\<rparr>)) = Some e
                  \<and> r = Some (Wrapped e []))"
      using failure by blast
  qed
next
  show "\<forall>(v :: 'a world_scheme) st.
             agent (agentCalls v) = Inr st
             \<and> (length (Nodes st) \<noteq> length (Servers (Plan p))
                 \<or> SystemStatus st \<noteq> SystemStatus_Running)
             \<longrightarrow> (\<exists>e. fst (waitAttempt agent p v) = Some e \<and> IsBadParameter e)"
    using waitAttempt_rejects by blast
qed

text \<open>
  With the agent above and two servers in the plan, a budget of one hundred attempts
  succeeds at the third attempt, two intervals after the start; a budget of two attempts
  returns the error of the second attempt.
\<close>

theorem waitExecute_bounded_retry_witness:
  "0 < RetryAttempts (demoDefaults 100)
   \<and> waitExecute (demoDefaults 100) demoAgent demoParams demoWorld =
       (None,
        \<lparr>clock = 10,
         events = [Progress ''Waiting for the planet to start'',
                   Logged InfoLevel ''Waiting for the planet to start.'',
                   Logged InfoLevel ''Planet is running.''],
         agentCalls = 3, node = None\<rparr>)
   \<and> waitExecute (demoDefaults 2) demoAgent demoParams demoWorld =
       (Some (Wrapped (BadParameter ''not all planets have come up yet'') []),
        \<lparr>clock = 10,
         events = [Progress ''Waiting for the planet to start'',
                   Logged InfoLevel ''Waiting for the planet to start.''],
         agentCalls = 2, node = None\<rparr>)"
proof -
  have a: "0 < RetryAttempts (demoDefaults 100)"
    by (simp add: demoDefaults_def)
  have b: "waitExecute (demoDefaults 100) demoAgent demoParams demoWorld =
       (None,
        \<lparr>clock = 10,
         events = [Progress ''Waiting for the planet to start'',
                   Logged InfoLevel ''Waiting for the planet to start.'',
                   Logged InfoLevel ''Planet is running.''],
         agentCalls = 3, node = None\<rparr>)"
    by code_simp
  have c: "waitExecute (demoDefaults 2) demoAgent demoParams demoWorld =
       (Some (Wrapped (BadParameter ''not all planets have come up yet'') []),
        \<lparr>clock = 10,
         events = [Progress ''Waiting for the planet to start'',
                   Logged InfoLevel ''Waiting for the planet to start.''],
         agentCalls = 2, node = None\<rparr>)"
    by code_simp
  from waitExecute_bounded_retry [OF a b] a b c show ?thesis
    by blast
qed

section \<open>Properties of PreCheck and of logging\<close>





text \<open>
  C9 does not hold of the code: \<open>Hook.Fire\<close> writes to the file only, and \<open>InitLogging\<close>
  sends the output of the logger to \<open>ioutil.Discard\<close>. After \<open>InitLogging\<close> has
  succeeded, an entry at the level \<open>Error\<close> reaches the log file and leaves the console
  as it was.
\<close>

theorem InitLogging_console_silent:
  "fst (InitLogging demoLogEnv ''install.log'' demoLogState) = None
   \<and> files (logEntry demoLogEnv \<lparr>EntryLevel = ErrorLevel, Message = ''disk failure''\<rparr>
              (snd (InitLogging demoLogEnv ''install.log'' demoLogState))) ''install.log''
       = Some ''disk failure''
   \<and> console (logEntry demoLogEnv \<lparr>EntryLevel = ErrorLevel, Message = ''disk failure''\<rparr>
              (snd (InitLogging demoLogEnv ''install.log'' demoLogState))) = []"
  by (simp add: InitLogging_def NewLogHook_def demoLogEnv_def demoLogState_def logEntry_def
      Fire_def Levels_def writeOut_def)

end
